theory Spec2Isabelle
  imports Main "HOL-Library.AList"
begin

section \<open>JavaScript values and the schema engine\<close>

text \<open>
  The wrappers of this library move JavaScript values between a caller, a Zod schema and a
  wrapped unit of logic.  A plain object is an association list of its own properties in
  insertion order; reading a property that is not there gives \<open>undefined\<close>.  Numbers are
  opaque to the wrappers and are modelled as integers.
\<close>

datatype jsval =
    Undefined
  | Null
  | JBool bool
  | JNum int
  | JStr string
  | JArr "jsval list"
  | JObj "(string \<times> jsval) list"

type_synonym jsobject = "(string \<times> jsval) list"

text \<open>The property read \<open>obj[key]\<close> on a plain object.\<close>

definition getProperty :: "jsobject \<Rightarrow> string \<Rightarrow> jsval" where
  "getProperty obj key = (case map_of obj key of None \<Rightarrow> Undefined | Some v \<Rightarrow> v)"

text \<open>
  A Zod issue as far as the wrappers read it: its message and its path, whose elements are
  property names or array indices.
\<close>

datatype path_elem = PKey string | PIndex nat

record ZodIssue =
  message :: string
  path :: "path_elem list"

text \<open>
  \<open>SafeParseReturnType\<close>: either \<open>{success: true, data}\<close> or
  \<open>{success: false, error}\<close>, where \<open>error.errors\<close> is the list of issues.
\<close>

datatype SafeParseReturnType =
    SafeParseSuccess jsval
  | SafeParseError "ZodIssue list"

text \<open>
  The classes of Zod schema objects that occur as the fields of an object schema.  The
  test \<open>schemaField instanceof ZodOptional\<close> looks at the outermost class only.
\<close>

datatype ZodType =
    ZodString
  | ZodNumber
  | ZodOptional ZodType
  | ZodNullable ZodType

text \<open>
  The schema engine is an external library.  A schema is taken as it is used by the
  wrappers: through its \<open>safeParse\<close> method and, for the object schema that
  \<open>stripEmptyStrings\<close> receives, through \<open>Object.entries(schema.shape)\<close>, the declared
  fields in declaration order.
\<close>

record ZodSchema =
  safeParse :: "jsval \<Rightarrow> SafeParseReturnType"
  shape :: "(string \<times> ZodType) list"

section \<open>Type/Response and the error code\<close>

record TypeMessage =
  code :: string
  "text" :: string

text \<open>
  \<open>TypeResponse\<close>: \<open>messages\<close> and \<open>data\<close> are optional properties; \<open>None\<close> is a
  property that is not there.
\<close>

record TypeResponse =
  success :: bool
  messages :: "TypeMessage list option"
  data :: "jsval option"

text \<open>
  Modelled from the spec: the constant \<open>EnumErrorCode.VALIDATION_ERROR\<close>, whose declaration
  (Type/ErrorCode) is not among the sources.  No result below depends on its value.
\<close>

definition VALIDATION_ERROR :: string where
  "VALIDATION_ERROR = ''VALIDATION_ERROR''"

section \<open>Helper/OptionalFieldStripperHelper\<close>

definition instanceofZodOptional :: "ZodType \<Rightarrow> bool" where
  "instanceofZodOptional schemaField = (case schemaField of ZodOptional _ \<Rightarrow> True | _ \<Rightarrow> False)"

definition instanceofZodNullable :: "ZodType \<Rightarrow> bool" where
  "instanceofZodNullable schemaField = (case schemaField of ZodNullable _ \<Rightarrow> True | _ \<Rightarrow> False)"

text \<open>
  The body of the \<open>forEach\<close> callback, on the value of \<open>cleanedData\<close>.  The assignment
  \<open>cleanedData[key] = undefined\<close> keeps the property and gives it the value \<open>undefined\<close>.
\<close>

definition stripEntry :: "jsobject \<Rightarrow> string \<times> ZodType \<Rightarrow> jsobject" where
  "stripEntry cleanedData entry =
     (case entry of (key, schemaField) \<Rightarrow>
        if instanceofZodOptional schemaField \<or> instanceofZodNullable schemaField
        then (if getProperty cleanedData key = JStr ''''
              then AList.update key Undefined cleanedData
              else cleanedData)
        else cleanedData)"

text \<open>
  \<open>stripEmptyStrings(data, schema)\<close> on values: \<open>cleanedData\<close> starts as the spread copy
  \<open>{...data}\<close>, which has the properties of \<open>data\<close>, and the callback runs once for each
  entry of the shape.
\<close>

definition stripEmptyStrings :: "jsobject \<Rightarrow> ZodSchema \<Rightarrow> jsobject" where
  "stripEmptyStrings data' schema = foldl stripEntry data' (shape schema)"

text \<open>
  The same function on a store of objects, where an object is named by its address (its
  index in the store): the spread copy allocates a new object, and every assignment of the
  callback writes to that new object.
\<close>

type_synonym heap = "jsobject list"

definition spreadCopy :: "heap \<Rightarrow> nat \<Rightarrow> nat \<times> heap" where
  "spreadCopy h data' = (length h, h @ [h ! data'])"

definition stripEntryH :: "nat \<Rightarrow> heap \<Rightarrow> string \<times> ZodType \<Rightarrow> heap" where
  "stripEntryH cleanedData h entry =
     (case entry of (key, schemaField) \<Rightarrow>
        if instanceofZodOptional schemaField \<or> instanceofZodNullable schemaField
        then (if getProperty (h ! cleanedData) key = JStr ''''
              then h[cleanedData := AList.update key Undefined (h ! cleanedData)]
              else h)
        else h)"

definition stripEmptyStringsH :: "heap \<Rightarrow> nat \<Rightarrow> ZodSchema \<Rightarrow> nat \<times> heap" where
  "stripEmptyStringsH h data' schema =
     (case spreadCopy h data' of (cleanedData, h1) \<Rightarrow>
        (cleanedData, foldl (stripEntryH cleanedData) h1 (shape schema)))"

text \<open>
  A field is declared optional or nullable when some entry of the shape with that name
  passes the \<open>instanceof\<close> test.
\<close>

definition declaredOptionalOrNullable :: "ZodSchema \<Rightarrow> string \<Rightarrow> bool" where
  "declaredOptionalOrNullable schema key =
     list_ex (\<lambda>entry. fst entry = key \<and>
                (instanceofZodOptional (snd entry) \<or> instanceofZodNullable (snd entry)))
             (shape schema)"

section \<open>Action/ZodSchemaValidatedAction\<close>

text \<open>
  A wrapped unit of logic is an asynchronous \<open>execute\<close>.  Its effects are made explicit by
  a state \<open>'s\<close> that every call receives and returns; a rejected promise is the left
  summand.  The wrappers await each call in sequence, so a call is a state transformer.
\<close>

type_synonym ('s, 'e) ActionInterface = "jsval \<Rightarrow> 's \<Rightarrow> ('e + TypeResponse) \<times> 's"

record ('s, 'e) ZodSchemaValidatedAction =
  payloadSchema :: ZodSchema
  objectSchema :: ZodSchema
  action :: "('s, 'e) ActionInterface"

text \<open>\<open>Array.prototype.join\<close> on a path: numbers print in decimal.\<close>

fun string_of_nat :: "nat \<Rightarrow> string" where
  "string_of_nat n =
     (if n < 10 then [''0123456789'' ! n]
      else string_of_nat (n div 10) @ [''0123456789'' ! (n mod 10)])"

fun path_elem_to_string :: "path_elem \<Rightarrow> string" where
  "path_elem_to_string (PKey s) = s"
| "path_elem_to_string (PIndex n) = string_of_nat n"

fun join :: "string \<Rightarrow> string list \<Rightarrow> string" where
  "join separator [] = []"
| "join separator [x] = x"
| "join separator (x # y # ys) = x @ separator @ join separator (y # ys)"

text \<open>
  The callback of both \<open>error.errors.map\<close> calls: the template literal
  \<open>`${error.message} (at ${error.path.join('.')})`\<close>.
\<close>

definition errorToMessage :: "ZodIssue \<Rightarrow> TypeMessage" where
  "errorToMessage error =
     \<lparr>code = VALIDATION_ERROR,
      text = message error @ '' (at '' @ join ''.'' (map path_elem_to_string (path error)) @ '')''\<rparr>"

text \<open>The property read \<open>response.data\<close>.\<close>

definition response_data :: "TypeResponse \<Rightarrow> jsval" where
  "response_data response = (case data response of None \<Rightarrow> Undefined | Some v \<Rightarrow> v)"

text \<open>
  \<open>ZodSchemaValidatedAction.execute\<close>.  The payload is the record that
  \<open>stripEmptyStrings\<close> spreads, and the payload schema is the object schema that the
  source casts it to.  The method is defined on every extension of the class record, as
  a subclass inherits it.
\<close>

definition execute ::
  "('s, 'e, 'z) ZodSchemaValidatedAction_scheme \<Rightarrow> jsobject \<Rightarrow> 's \<Rightarrow> ('e + TypeResponse) \<times> 's"
where
  "execute this payload s =
     (case safeParse (ZodSchemaValidatedAction.payloadSchema this)
             (JObj (stripEmptyStrings payload (ZodSchemaValidatedAction.payloadSchema this))) of
        SafeParseError errors \<Rightarrow>
          (Inr \<lparr>success = False, messages = Some (map errorToMessage errors), data = None\<rparr>, s)
      | SafeParseSuccess parsedPayload \<Rightarrow>
          (case action this parsedPayload s of
             (Inl rejection, s') \<Rightarrow> (Inl rejection, s')
           | (Inr response, s') \<Rightarrow>
               (case safeParse (objectSchema this) (response_data response) of
                  SafeParseError errors \<Rightarrow>
                    (Inr \<lparr>success = False, messages = Some (map errorToMessage errors),
                          data = None\<rparr>, s')
                | SafeParseSuccess validated \<Rightarrow>
                    (Inr (response\<lparr>data := Some validated\<rparr>), s'))))"

section \<open>Service/ZodSchemaValidatedService\<close>

type_synonym ('s, 'e) ServiceInterface = "jsval \<Rightarrow> 's \<Rightarrow> ('e + jsval) \<times> 's"

record ('s, 'e) ZodSchemaValidatedService =
  payloadSchema :: ZodSchema
  responseSchema :: ZodSchema
  service :: "('s, 'e) ServiceInterface"

definition service_execute ::
  "('s, 'e, 'z) ZodSchemaValidatedService_scheme \<Rightarrow> jsval \<Rightarrow> 's
     \<Rightarrow> ('e + SafeParseReturnType) \<times> 's"
where
  "service_execute this payload s =
     (case safeParse (ZodSchemaValidatedService.payloadSchema this) payload of
        SafeParseError errors \<Rightarrow> (Inr (SafeParseError errors), s)
      | SafeParseSuccess parsedPayload \<Rightarrow>
          (case service this parsedPayload s of
             (Inl rejection, s') \<Rightarrow> (Inl rejection, s')
           | (Inr response, s') \<Rightarrow> (Inr (safeParse (responseSchema this) response), s')))"

section \<open>Tool/ActionTool and Tool/ServiceTool\<close>

record ('s, 'e) ActionTool = "('s, 'e) ZodSchemaValidatedAction" +
  name :: string
  description :: string
  parameters :: ZodSchema

record ('s, 'e) ServiceTool = "('s, 'e) ZodSchemaValidatedService" +
  name :: string
  description :: string
  parameters :: ZodSchema

text \<open>The constructors: the parameter properties of the base classes, and the two tools'
  \<open>super(...)\<close> call followed by their three assignments.\<close>

definition new_ZodSchemaValidatedAction ::
  "ZodSchema \<Rightarrow> ZodSchema \<Rightarrow> ('s, 'e) ActionInterface \<Rightarrow> ('s, 'e) ZodSchemaValidatedAction"
where
  "new_ZodSchemaValidatedAction payloadSchema' objectSchema' action' =
     \<lparr>ZodSchemaValidatedAction.payloadSchema = payloadSchema',
      objectSchema = objectSchema', action = action'\<rparr>"

definition new_ZodSchemaValidatedService ::
  "ZodSchema \<Rightarrow> ZodSchema \<Rightarrow> ('s, 'e) ServiceInterface \<Rightarrow> ('s, 'e) ZodSchemaValidatedService"
where
  "new_ZodSchemaValidatedService payloadSchema' responseSchema' service' =
     \<lparr>ZodSchemaValidatedService.payloadSchema = payloadSchema',
      responseSchema = responseSchema', service = service'\<rparr>"

definition new_ActionTool ::
  "string \<Rightarrow> string \<Rightarrow> ZodSchema \<Rightarrow> ZodSchema \<Rightarrow> ('s, 'e) ActionInterface \<Rightarrow> ('s, 'e) ActionTool"
where
  "new_ActionTool name' description' payloadSchema' responseSchema' action' =
     \<lparr>ZodSchemaValidatedAction.payloadSchema = payloadSchema',
      objectSchema = responseSchema', action = action',
      ActionTool.name = name', ActionTool.description = description',
      ActionTool.parameters = payloadSchema'\<rparr>"

definition new_ServiceTool ::
  "string \<Rightarrow> string \<Rightarrow> ZodSchema \<Rightarrow> ZodSchema \<Rightarrow> ('s, 'e) ServiceInterface \<Rightarrow> ('s, 'e) ServiceTool"
where
  "new_ServiceTool name' description' payloadSchema' responseSchema' service' =
     \<lparr>ZodSchemaValidatedService.payloadSchema = payloadSchema',
      responseSchema = responseSchema', service = service',
      ServiceTool.name = name', ServiceTool.description = description',
      ServiceTool.parameters = payloadSchema'\<rparr>"

section \<open>Example schemas and wrapped units\<close>

text \<open>
  The results below hold for every schema, that is for every \<open>safeParse\<close>.  To run the
  wrappers on concrete inputs, an instance of the engine is needed: flat object schemas over
  strings and numbers, as in the test suite, with Zod's messages for a value of the wrong
  type.  An object schema either strips the properties it does not declare (Zod's default)
  or passes them through (\<open>.passthrough()\<close>).
\<close>

fun getParsedType :: "jsval \<Rightarrow> string" where
  "getParsedType Undefined = ''undefined''"
| "getParsedType Null = ''null''"
| "getParsedType (JBool _) = ''boolean''"
| "getParsedType (JNum _) = ''number''"
| "getParsedType (JStr _) = ''string''"
| "getParsedType (JArr _) = ''array''"
| "getParsedType (JObj _) = ''object''"

definition invalid_type :: "string \<Rightarrow> jsval \<Rightarrow> ZodIssue" where
  "invalid_type expected v =
     \<lparr>message = (if v = Undefined then ''Required''
                 else ''Expected '' @ expected @ '', received '' @ getParsedType v),
      path = []\<rparr>"

fun parseField :: "ZodType \<Rightarrow> jsval \<Rightarrow> ZodIssue list + jsval" where
  "parseField ZodString v = (case v of JStr _ \<Rightarrow> Inr v | _ \<Rightarrow> Inl [invalid_type ''string'' v])"
| "parseField ZodNumber v = (case v of JNum _ \<Rightarrow> Inr v | _ \<Rightarrow> Inl [invalid_type ''number'' v])"
| "parseField (ZodOptional t) v = (if v = Undefined then Inr Undefined else parseField t v)"
| "parseField (ZodNullable t) v = (if v = Null then Inr Null else parseField t v)"

datatype UnknownKeysParam = Strip | Passthrough

definition fieldIssues :: "jsobject \<Rightarrow> string \<times> ZodType \<Rightarrow> ZodIssue list" where
  "fieldIssues obj entry =
     (case parseField (snd entry) (getProperty obj (fst entry)) of
        Inl issues \<Rightarrow> map (\<lambda>issue. issue\<lparr>path := PKey (fst entry) # path issue\<rparr>) issues
      | Inr _ \<Rightarrow> [])"

definition fieldOutput :: "jsobject \<Rightarrow> string \<times> ZodType \<Rightarrow> jsobject" where
  "fieldOutput obj entry =
     (case parseField (snd entry) (getProperty obj (fst entry)) of
        Inl _ \<Rightarrow> []
      | Inr v \<Rightarrow> if v \<noteq> Undefined \<or> fst entry \<in> set (map fst obj) then [(fst entry, v)] else [])"

definition parseObject :: "(string \<times> ZodType) list \<Rightarrow> UnknownKeysParam \<Rightarrow> jsval \<Rightarrow> SafeParseReturnType" where
  "parseObject sh unknownKeys v =
     (case v of
        JObj obj \<Rightarrow>
          (if concat (map (fieldIssues obj) sh) = []
           then SafeParseSuccess (JObj (concat (map (fieldOutput obj) sh) @
                  (case unknownKeys of
                     Strip \<Rightarrow> []
                   | Passthrough \<Rightarrow> filter (\<lambda>p. fst p \<notin> set (map fst sh)) obj)))
           else SafeParseError (concat (map (fieldIssues obj) sh)))
      | _ \<Rightarrow> SafeParseError [invalid_type ''object'' v])"

definition z_object :: "(string \<times> ZodType) list \<Rightarrow> ZodSchema" where
  "z_object sh = \<lparr>safeParse = parseObject sh Strip, shape = sh\<rparr>"

definition z_object_passthrough :: "(string \<times> ZodType) list \<Rightarrow> ZodSchema" where
  "z_object_passthrough sh = \<lparr>safeParse = parseObject sh Passthrough, shape = sh\<rparr>"

text \<open>The schemas of the test suite.\<close>

definition nameSchema :: ZodSchema where
  "nameSchema = z_object [(''name'', ZodString)]"

definition idSchema :: ZodSchema where
  "idSchema = z_object [(''id'', ZodNumber)]"

definition idPassthroughSchema :: ZodSchema where
  "idPassthroughSchema = z_object_passthrough [(''id'', ZodNumber)]"

definition optionalAgeSchema :: ZodSchema where
  "optionalAgeSchema = z_object [(''name'', ZodString), (''age'', ZodOptional ZodNumber)]"

definition optionalEmailSchema :: ZodSchema where
  "optionalEmailSchema =
     z_object [(''name'', ZodString), (''email'', ZodOptional ZodString),
               (''nick'', ZodNullable ZodString)]"

text \<open>
  Call-counting stubs: the state is the number of calls made so far, and each stub answers
  every payload with one fixed response.
\<close>

definition stubAction :: "TypeResponse \<Rightarrow> (nat, unit) ActionInterface" where
  "stubAction response payload calls = (Inr response, Suc calls)"

definition stubService :: "jsval \<Rightarrow> (nat, unit) ServiceInterface" where
  "stubService response payload calls = (Inr response, Suc calls)"

definition mockResponse :: TypeResponse where
  "mockResponse = \<lparr>success = True, messages = Some [], data = Some (JObj [(''id'', JNum 1)])\<rparr>"

definition invalidOutputResponse :: TypeResponse where
  "invalidOutputResponse =
     \<lparr>success = True, messages = Some [], data = Some (JObj [(''id'', JStr ''invalid'')])\<rparr>"

definition extraFieldsResponse :: TypeResponse where
  "extraFieldsResponse =
     \<lparr>success = True, messages = Some [],
      data = Some (JObj [(''id'', JNum 1), (''extraField'', JStr ''this should be stripped'')])\<rparr>"

definition notFoundMessage :: TypeMessage where
  "notFoundMessage = \<lparr>code = ''NOT_FOUND'', text = ''No such user''\<rparr>"

definition failedWithoutData :: TypeResponse where
  "failedWithoutData = \<lparr>success = False, messages = Some [notFoundMessage], data = None\<rparr>"

definition failedWithData :: TypeResponse where
  "failedWithData =
     \<lparr>success = False, messages = Some [notFoundMessage], data = Some (JObj [(''id'', JNum 1)])\<rparr>"

definition stringDataResponse :: TypeResponse where
  "stringDataResponse = \<lparr>success = True, messages = Some [], data = Some (JStr ''oops'')\<rparr>"

definition johnDoe :: jsobject where
  "johnDoe = [(''name'', JStr ''John Doe'')]"

section \<open>Lemmas on the field stripper\<close>

lemma getProperty_update:
  "getProperty (AList.update k v obj) k' = (if k' = k then v else getProperty obj k')"
  by (simp add: getProperty_def update_conv')

lemma keys_update_present:
  "getProperty obj k = JStr s \<Longrightarrow> map fst (AList.update k v obj) = map fst obj"
proof -
  assume "getProperty obj k = JStr s"
  then have "map_of obj k \<noteq> None"
    by (auto simp: getProperty_def split: option.splits)
  then have "k \<in> set (map fst obj)"
    by (simp add: map_of_eq_None_iff)
  then show ?thesis
    by (simp add: update_keys)
qed

lemma stripEntry_getProperty:
  "getProperty (stripEntry obj (k, t)) k' =
     (if k' = k \<and> (instanceofZodOptional t \<or> instanceofZodNullable t) \<and> getProperty obj k = JStr ''''
      then Undefined else getProperty obj k')"
  by (auto simp: stripEntry_def getProperty_update)

lemma stripEntry_keys: "map fst (stripEntry obj entry) = map fst obj"
  by (cases entry) (auto simp: stripEntry_def keys_update_present)

lemma foldl_stripEntry_getProperty:
  "getProperty (foldl stripEntry obj sh) k =
     (if list_ex (\<lambda>entry. fst entry = k \<and>
                    (instanceofZodOptional (snd entry) \<or> instanceofZodNullable (snd entry))) sh
         \<and> getProperty obj k = JStr ''''
      then Undefined else getProperty obj k)"
proof (induction sh arbitrary: obj)
  case Nil
  then show ?case by simp
next
  case (Cons entry sh)
  obtain k' t where entry: "entry = (k', t)"
    by (cases entry)
  show ?case
    unfolding foldl_Cons Cons.IH entry
    by (auto simp: stripEntry_getProperty)
qed

lemma foldl_stripEntry_keys: "map fst (foldl stripEntry obj sh) = map fst obj"
  by (induction sh arbitrary: obj) (simp_all add: stripEntry_keys)

text \<open>
  A payload in which no field declared optional or nullable holds the empty string is
  its own normalised form.
\<close>

lemma stripEmptyStrings_unchanged:
  assumes "\<And>key. declaredOptionalOrNullable schema key \<Longrightarrow> getProperty record key \<noteq> JStr []"
  shows "stripEmptyStrings record schema = record"
proof -
  have "\<forall>entry \<in> set sh.
          instanceofZodOptional (snd entry) \<or> instanceofZodNullable (snd entry)
          \<longrightarrow> getProperty obj (fst entry) \<noteq> JStr []
        \<Longrightarrow> foldl stripEntry obj sh = obj" for obj sh
    by (induction sh) (auto simp: stripEntry_def)
  moreover have "\<forall>entry \<in> set (shape schema).
          instanceofZodOptional (snd entry) \<or> instanceofZodNullable (snd entry)
          \<longrightarrow> getProperty record (fst entry) \<noteq> JStr []"
    using assms by (auto simp: declaredOptionalOrNullable_def list_ex_iff)
  ultimately show ?thesis
    by (simp add: stripEmptyStrings_def)
qed

text \<open>
  C7.  For every record and object schema, the field stripper returns a record with the
  same property names in the same order, in which a top-level property reads \<open>undefined\<close>
  when the schema declares it optional or nullable and its value in the input is exactly
  the empty string, and in which every other property, declared or not and whatever its
  value (nested objects included), reads as it does in the input.
\<close>

theorem stripEmptyStrings_spec:
  "getProperty (stripEmptyStrings record schema) key =
     (if declaredOptionalOrNullable schema key \<and> getProperty record key = JStr ''''
      then Undefined else getProperty record key)
   \<and> map fst (stripEmptyStrings record schema) = map fst record"
  by (simp add: stripEmptyStrings_def declaredOptionalOrNullable_def
        foldl_stripEntry_getProperty foldl_stripEntry_keys)


section \<open>Lemmas on the stages of the Action wrapper\<close>

lemmas example_defs =
  nameSchema_def idSchema_def idPassthroughSchema_def optionalAgeSchema_def
  optionalEmailSchema_def
  z_object_def z_object_passthrough_def parseObject_def fieldIssues_def fieldOutput_def
  invalid_type_def getProperty_def stubAction_def stubService_def mockResponse_def
  invalidOutputResponse_def extraFieldsResponse_def notFoundMessage_def
  failedWithoutData_def failedWithData_def stringDataResponse_def johnDoe_def
  new_ZodSchemaValidatedAction_def new_ZodSchemaValidatedService_def
  stripEmptyStrings_def stripEntry_def instanceofZodOptional_def instanceofZodNullable_def
  response_data_def errorToMessage_def

lemma execute_input_error:
  assumes "safeParse (ZodSchemaValidatedAction.payloadSchema this)
             (JObj (stripEmptyStrings payload (ZodSchemaValidatedAction.payloadSchema this)))
           = SafeParseError errors"
  shows "execute this payload s =
           (Inr \<lparr>success = False, messages = Some (map errorToMessage errors), data = None\<rparr>, s)"
  using assms by (simp add: execute_def)

lemma execute_output_error:
  assumes "safeParse (ZodSchemaValidatedAction.payloadSchema this)
             (JObj (stripEmptyStrings payload (ZodSchemaValidatedAction.payloadSchema this)))
           = SafeParseSuccess parsedPayload"
    and "action this parsedPayload s = (Inr response, s')"
    and "safeParse (objectSchema this) (response_data response) = SafeParseError errors"
  shows "execute this payload s =
           (Inr \<lparr>success = False, messages = Some (map errorToMessage errors), data = None\<rparr>, s')"
  using assms by (simp add: execute_def)

lemma execute_validated:
  assumes "safeParse (ZodSchemaValidatedAction.payloadSchema this)
             (JObj (stripEmptyStrings payload (ZodSchemaValidatedAction.payloadSchema this)))
           = SafeParseSuccess parsedPayload"
    and "action this parsedPayload s = (Inr response, s')"
    and "safeParse (objectSchema this) (response_data response) = SafeParseSuccess validated"
  shows "execute this payload s = (Inr (response\<lparr>data := Some validated\<rparr>), s')"
  using assms by (simp add: execute_def)

lemma list_all2_errorToMessage:
  "list_all2 (\<lambda>error m. code m = VALIDATION_ERROR
       \<and> text m = message error @ '' (at '' @ join ''.'' (map path_elem_to_string (path error)) @ '')''
       \<and> (path error = [] \<longrightarrow> text m = message error @ '' (at )''))
     errors (map errorToMessage errors)"
  by (induction errors) (auto simp: errorToMessage_def)

text \<open>
  C1.  For every payload whose normalised form (the payload after the field stripper has
  replaced the empty strings of optional and nullable fields) the input schema rejects,
  \<open>execute\<close> returns \<open>{success: false, messages}\<close> with one \<open>VALIDATION_ERROR\<close>
  message for each issue of that validation, in order; the state of the wrapped unit is
  the one before the call, and the result is the same whatever the wrapped unit is: the
  unit is not invoked.
\<close>

theorem execute_input_rejected:
  assumes "safeParse (ZodSchemaValidatedAction.payloadSchema this)
             (JObj (stripEmptyStrings payload (ZodSchemaValidatedAction.payloadSchema this)))
           = SafeParseError errors"
  shows "execute this payload s =
           (Inr \<lparr>success = False, messages = Some (map errorToMessage errors), data = None\<rparr>, s)
         \<and> execute (this\<lparr>action := action'\<rparr>) payload s = execute this payload s
         \<and> length (map errorToMessage errors) = length errors
         \<and> (\<forall>m \<in> set (map errorToMessage errors). code m = VALIDATION_ERROR)"
proof -
  have "execute (this\<lparr>action := action'\<rparr>) payload s = execute this payload s"
    using assms by (simp add: execute_def)
  moreover have "\<forall>m \<in> set (map errorToMessage errors). code m = VALIDATION_ERROR"
    by (simp add: errorToMessage_def)
  ultimately show ?thesis
    using execute_input_error [OF assms] by simp
qed

theorem execute_input_rejected_witness:
  "safeParse nameSchema (JObj (stripEmptyStrings [(''name'', JNum 123)] nameSchema))
     = SafeParseError [\<lparr>message = ''Expected string, received number'', path = [PKey ''name'']\<rparr>]
   \<and> execute (new_ZodSchemaValidatedAction nameSchema idSchema (stubAction mockResponse))
        [(''name'', JNum 123)] 0
     = (Inr \<lparr>success = False,
             messages = Some [\<lparr>code = VALIDATION_ERROR,
                               text = ''Expected string, received number (at name)''\<rparr>],
             data = None\<rparr>, 0)"
proof -
  have rejected:
    "safeParse (ZodSchemaValidatedAction.payloadSchema
                  (new_ZodSchemaValidatedAction nameSchema idSchema (stubAction mockResponse)))
       (JObj (stripEmptyStrings [(''name'', JNum 123)]
                (ZodSchemaValidatedAction.payloadSchema
                   (new_ZodSchemaValidatedAction nameSchema idSchema (stubAction mockResponse)))))
     = SafeParseError [\<lparr>message = ''Expected string, received number'', path = [PKey ''name'']\<rparr>]"
    by (simp add: example_defs)
  from execute_input_rejected [OF rejected, of 0 "stubAction mockResponse"] rejected
  show ?thesis
    by (simp add: new_ZodSchemaValidatedAction_def errorToMessage_def)
qed

text \<open>
  Against C1 as stated: the schema \<open>z.object({name: z.string(), age: z.number().optional()})\<close>
  rejects the payload \<open>{name: 'Ann', age: ''}\<close>, since the empty string is not a number;
  the wrapper validates the normalised payload, in which \<open>age\<close> is \<open>undefined\<close>, so the
  wrapped unit is called (its counter goes to 1) and its successful response is returned.
\<close>

theorem rejected_payload_reaches_unit_counterexample:
  "safeParse optionalAgeSchema (JObj [(''name'', JStr ''Ann''), (''age'', JStr [])])
     = SafeParseError [\<lparr>message = ''Expected number, received string'', path = [PKey ''age'']\<rparr>]
   \<and> execute (new_ZodSchemaValidatedAction optionalAgeSchema idSchema (stubAction mockResponse))
        [(''name'', JStr ''Ann''), (''age'', JStr [])] 0
     = (Inr \<lparr>success = True, messages = Some [], data = Some (JObj [(''id'', JNum 1)])\<rparr>, 1)"
  by (simp add: example_defs execute_def)

text \<open>
  C2.  When the input stage accepts the payload, the wrapped unit returns a response and
  the output schema accepts the response's data, \<open>execute\<close> returns the wrapped unit's
  response record with \<open>data\<close> overwritten by the value the output schema produced;
  \<open>success\<close> and \<open>messages\<close> are the wrapped unit's.  Whether undeclared fields are
  dropped is left to the output schema: the wrapper passes on that schema's value.
\<close>

theorem execute_success_overwrites_data:
  assumes "safeParse (ZodSchemaValidatedAction.payloadSchema this)
             (JObj (stripEmptyStrings payload (ZodSchemaValidatedAction.payloadSchema this)))
           = SafeParseSuccess parsedPayload"
    and "action this parsedPayload s = (Inr response, s')"
    and "safeParse (objectSchema this) (response_data response) = SafeParseSuccess validated"
  shows "execute this payload s =
           (Inr \<lparr>success = success response, messages = messages response,
                 data = Some validated\<rparr>, s')"
  using execute_validated [OF assms] by simp

theorem execute_success_overwrites_data_witness:
  "safeParse nameSchema (JObj (stripEmptyStrings johnDoe nameSchema))
     = SafeParseSuccess (JObj [(''name'', JStr ''John Doe'')])
   \<and> stubAction extraFieldsResponse (JObj [(''name'', JStr ''John Doe'')]) 0
     = (Inr extraFieldsResponse, 1)
   \<and> safeParse idSchema (response_data extraFieldsResponse)
     = SafeParseSuccess (JObj [(''id'', JNum 1)])
   \<and> execute (new_ZodSchemaValidatedAction nameSchema idSchema (stubAction extraFieldsResponse))
        johnDoe 0
     = (Inr \<lparr>success = True, messages = Some [], data = Some (JObj [(''id'', JNum 1)])\<rparr>, 1)"
proof -
  let ?w = "new_ZodSchemaValidatedAction nameSchema idSchema (stubAction extraFieldsResponse)"
  have accepted:
    "safeParse (ZodSchemaValidatedAction.payloadSchema ?w)
       (JObj (stripEmptyStrings johnDoe (ZodSchemaValidatedAction.payloadSchema ?w)))
     = SafeParseSuccess (JObj [(''name'', JStr ''John Doe'')])"
    by (simp add: example_defs)
  have called:
    "action ?w (JObj [(''name'', JStr ''John Doe'')]) 0 = (Inr extraFieldsResponse, 1)"
    by (simp add: example_defs)
  have valid:
    "safeParse (objectSchema ?w) (response_data extraFieldsResponse)
     = SafeParseSuccess (JObj [(''id'', JNum 1)])"
    by (simp add: example_defs)
  from execute_success_overwrites_data [OF accepted called valid] accepted called valid
  show ?thesis
    by (simp add: new_ZodSchemaValidatedAction_def extraFieldsResponse_def)
qed

text \<open>
  Against C2 as stated: with an output schema that passes unknown keys through
  (\<open>z.object({id: z.number()}).passthrough()\<close>), the payload and the response's data are
  both accepted, and the returned \<open>data\<close> still has the field \<open>extraField\<close>, which the
  output schema does not declare.
\<close>

theorem execute_keeps_undeclared_field_counterexample:
  "safeParse nameSchema (JObj (stripEmptyStrings johnDoe nameSchema))
     = SafeParseSuccess (JObj [(''name'', JStr ''John Doe'')])
   \<and> safeParse idPassthroughSchema (response_data extraFieldsResponse)
     = SafeParseSuccess
         (JObj [(''id'', JNum 1), (''extraField'', JStr ''this should be stripped'')])
   \<and> execute (new_ZodSchemaValidatedAction nameSchema idPassthroughSchema
                (stubAction extraFieldsResponse)) johnDoe 0
     = (Inr \<lparr>success = True, messages = Some [],
             data = Some (JObj [(''id'', JNum 1),
                                (''extraField'', JStr ''this should be stripped'')])\<rparr>, 1)
   \<and> ''extraField'' \<notin> set (map fst (shape idPassthroughSchema))"
  by (simp add: example_defs execute_def)

text \<open>
  C5.  When the input stage accepts the payload and the output schema rejects the data
  of the wrapped unit's response, \<open>execute\<close> returns \<open>{success: false, messages}\<close> with
  the \<open>VALIDATION_ERROR\<close> messages of the output issues and nothing else; the result is
  the same whatever \<open>success\<close> and \<open>messages\<close> the wrapped unit returned.
\<close>

theorem execute_output_rejected:
  assumes "safeParse (ZodSchemaValidatedAction.payloadSchema this)
             (JObj (stripEmptyStrings payload (ZodSchemaValidatedAction.payloadSchema this)))
           = SafeParseSuccess parsedPayload"
    and "action this parsedPayload s = (Inr response, s')"
    and "safeParse (objectSchema this) (response_data response) = SafeParseError errors"
  shows "execute this payload s =
           (Inr \<lparr>success = False, messages = Some (map errorToMessage errors), data = None\<rparr>, s')
         \<and> execute (this\<lparr>action := (action this)(parsedPayload :=
                       (action this parsedPayload)(s :=
                          (Inr (response\<lparr>success := success', messages := messages'\<rparr>), s')))\<rparr>)
               payload s
           = execute this payload s"
proof -
  let ?that = "this\<lparr>action := (action this)(parsedPayload :=
                       (action this parsedPayload)(s :=
                          (Inr (response\<lparr>success := success', messages := messages'\<rparr>), s')))\<rparr>"
  have "execute ?that payload s =
          (Inr \<lparr>success = False, messages = Some (map errorToMessage errors), data = None\<rparr>, s')"
    using assms by (simp add: execute_def response_data_def)
  then show ?thesis
    using execute_output_error [OF assms] by simp
qed

theorem execute_output_rejected_witness:
  "safeParse nameSchema (JObj (stripEmptyStrings johnDoe nameSchema))
     = SafeParseSuccess (JObj [(''name'', JStr ''John Doe'')])
   \<and> stubAction invalidOutputResponse (JObj [(''name'', JStr ''John Doe'')]) 0
     = (Inr invalidOutputResponse, 1)
   \<and> safeParse idSchema (response_data invalidOutputResponse)
     = SafeParseError [\<lparr>message = ''Expected number, received string'', path = [PKey ''id'']\<rparr>]
   \<and> execute (new_ZodSchemaValidatedAction nameSchema idSchema (stubAction invalidOutputResponse))
        johnDoe 0
     = (Inr \<lparr>success = False,
             messages = Some [\<lparr>code = VALIDATION_ERROR,
                               text = ''Expected number, received string (at id)''\<rparr>],
             data = None\<rparr>, 1)"
proof -
  let ?w = "new_ZodSchemaValidatedAction nameSchema idSchema (stubAction invalidOutputResponse)"
  have accepted:
    "safeParse (ZodSchemaValidatedAction.payloadSchema ?w)
       (JObj (stripEmptyStrings johnDoe (ZodSchemaValidatedAction.payloadSchema ?w)))
     = SafeParseSuccess (JObj [(''name'', JStr ''John Doe'')])"
    by (simp add: example_defs)
  have called:
    "action ?w (JObj [(''name'', JStr ''John Doe'')]) 0 = (Inr invalidOutputResponse, 1)"
    by (simp add: example_defs)
  have invalid:
    "safeParse (objectSchema ?w) (response_data invalidOutputResponse)
     = SafeParseError [\<lparr>message = ''Expected number, received string'', path = [PKey ''id'']\<rparr>]"
    by (simp add: example_defs)
  from execute_output_rejected [OF accepted called invalid] accepted called invalid
  show ?thesis
    by (simp add: new_ZodSchemaValidatedAction_def errorToMessage_def)
qed

text \<open>
  C10.  For every payload whose normalised form the input schema accepts and every
  wrapped unit that answers with \<open>success == false\<close> and no data, \<open>execute\<close> goes on
  to validate \<open>undefined\<close> against the output schema.  When that schema rejects
  \<open>undefined\<close>, the caller receives \<open>{success: false, messages}\<close> with the
  \<open>VALIDATION_ERROR\<close> messages of that output validation; the messages of the wrapped
  unit are not part of the result.
\<close>

theorem execute_failed_unit_without_data:
  assumes "safeParse (ZodSchemaValidatedAction.payloadSchema this)
             (JObj (stripEmptyStrings payload (ZodSchemaValidatedAction.payloadSchema this)))
           = SafeParseSuccess parsedPayload"
    and "action this parsedPayload s = (Inr response, s')"
    and "success response = False"
    and "data response = None"
    and "safeParse (objectSchema this) Undefined = SafeParseError errors"
  shows "execute this payload s =
           (Inr \<lparr>success = False, messages = Some (map errorToMessage errors), data = None\<rparr>, s')"
proof -
  have "response_data response = Undefined"
    using assms(4) by (simp add: response_data_def)
  with assms(5) have "safeParse (objectSchema this) (response_data response) = SafeParseError errors"
    by simp
  with assms(1,2) show ?thesis
    by (rule execute_output_error)
qed

theorem execute_failed_unit_without_data_witness:
  "safeParse nameSchema (JObj (stripEmptyStrings johnDoe nameSchema))
     = SafeParseSuccess (JObj [(''name'', JStr ''John Doe'')])
   \<and> stubAction failedWithoutData (JObj [(''name'', JStr ''John Doe'')]) 0
     = (Inr failedWithoutData, 1)
   \<and> success failedWithoutData = False
   \<and> data failedWithoutData = None
   \<and> safeParse idSchema Undefined = SafeParseError [\<lparr>message = ''Required'', path = []\<rparr>]
   \<and> execute (new_ZodSchemaValidatedAction nameSchema idSchema (stubAction failedWithoutData))
        johnDoe 0
     = (Inr \<lparr>success = False,
             messages = Some [\<lparr>code = VALIDATION_ERROR, text = ''Required (at )''\<rparr>],
             data = None\<rparr>, 1)"
proof -
  let ?w = "new_ZodSchemaValidatedAction nameSchema idSchema (stubAction failedWithoutData)"
  have accepted:
    "safeParse (ZodSchemaValidatedAction.payloadSchema ?w)
       (JObj (stripEmptyStrings johnDoe (ZodSchemaValidatedAction.payloadSchema ?w)))
     = SafeParseSuccess (JObj [(''name'', JStr ''John Doe'')])"
    by (simp add: example_defs)
  have called:
    "action ?w (JObj [(''name'', JStr ''John Doe'')]) 0 = (Inr failedWithoutData, 1)"
    by (simp add: example_defs)
  have failed: "success failedWithoutData = False"
    by (simp add: failedWithoutData_def)
  have absent: "data failedWithoutData = None"
    by (simp add: failedWithoutData_def)
  have required:
    "safeParse (objectSchema ?w) Undefined = SafeParseError [\<lparr>message = ''Required'', path = []\<rparr>]"
    by (simp add: example_defs)
  from execute_failed_unit_without_data [OF accepted called failed absent required]
    accepted called failed absent required
  show ?thesis
    by (simp add: new_ZodSchemaValidatedAction_def errorToMessage_def)
qed

text \<open>
  Against C10 as stated: the schema with a nullable string field \<open>nick\<close> accepts the
  payload \<open>{name: 'John Doe', nick: ''}\<close>, and the wrapped unit would answer
  \<open>success == false\<close> without data, which the output schema rejects; the wrapper validates
  the normalised payload, in which \<open>nick\<close> is \<open>undefined\<close>, so the input stage fails: the
  message is the input-side \<open>Required (at nick)\<close>, the wrapped unit is not called (its
  counter stays 0) and no output validation takes place.
\<close>

theorem accepted_payload_fails_input_stage_counterexample:
  "safeParse optionalEmailSchema (JObj [(''name'', JStr ''John Doe''), (''nick'', JStr [])])
     = SafeParseSuccess (JObj [(''name'', JStr ''John Doe''), (''nick'', JStr [])])
   \<and> success failedWithoutData = False
   \<and> data failedWithoutData = None
   \<and> safeParse idSchema Undefined = SafeParseError [\<lparr>message = ''Required'', path = []\<rparr>]
   \<and> execute (new_ZodSchemaValidatedAction optionalEmailSchema idSchema
                (stubAction failedWithoutData))
        [(''name'', JStr ''John Doe''), (''nick'', JStr [])] 0
     = (Inr \<lparr>success = False,
             messages = Some [\<lparr>code = VALIDATION_ERROR, text = ''Required (at nick)''\<rparr>],
             data = None\<rparr>, 0)"
  by (simp add: example_defs execute_def)

text \<open>
  C4.  In both failing stages of the Action wrapper, the text of each returned message is
  the issue's message followed by \<open>" (at "\<close>, the path joined by dots, and \<open>")"\<close>, whether
  or not the path is empty; for an issue with an empty path that text is the message
  followed by \<open>" (at )"\<close>.
\<close>

theorem validation_message_text:
  assumes "execute this payload s = (Inr r, s')"
    and "safeParse (ZodSchemaValidatedAction.payloadSchema this)
           (JObj (stripEmptyStrings payload (ZodSchemaValidatedAction.payloadSchema this)))
         = SafeParseError errors
       \<or> (safeParse (ZodSchemaValidatedAction.payloadSchema this)
             (JObj (stripEmptyStrings payload (ZodSchemaValidatedAction.payloadSchema this)))
           = SafeParseSuccess parsedPayload
          \<and> action this parsedPayload s = (Inr response, s')
          \<and> safeParse (objectSchema this) (response_data response) = SafeParseError errors)"
  shows "\<exists>ms. messages r = Some ms
           \<and> list_all2 (\<lambda>error m. code m = VALIDATION_ERROR
                 \<and> text m = message error @ '' (at ''
                              @ join ''.'' (map path_elem_to_string (path error)) @ '')''
                 \<and> (path error = [] \<longrightarrow> text m = message error @ '' (at )''))
               errors ms"
proof -
  have "execute this payload s =
          (Inr \<lparr>success = False, messages = Some (map errorToMessage errors), data = None\<rparr>,
           if safeParse (ZodSchemaValidatedAction.payloadSchema this)
                (JObj (stripEmptyStrings payload (ZodSchemaValidatedAction.payloadSchema this)))
              = SafeParseError errors then s else s')"
    using assms(2) by (auto simp: execute_input_error execute_output_error)
  with assms(1) have "messages r = Some (map errorToMessage errors)"
    by auto
  then show ?thesis
    using list_all2_errorToMessage [of errors] by simp
qed

theorem validation_message_text_witness:
  "execute (new_ZodSchemaValidatedAction nameSchema idSchema (stubAction mockResponse)) [] 0
     = (Inr \<lparr>success = False,
             messages = Some [\<lparr>code = VALIDATION_ERROR, text = ''Required (at name)''\<rparr>],
             data = None\<rparr>, 0)
   \<and> safeParse nameSchema (JObj (stripEmptyStrings [] nameSchema))
     = SafeParseError [\<lparr>message = ''Required'', path = [PKey ''name'']\<rparr>]
   \<and> (\<exists>ms. messages \<lparr>success = False,
                 messages = Some [\<lparr>code = VALIDATION_ERROR, text = ''Required (at name)''\<rparr>],
                 data = None\<rparr> = Some ms
         \<and> list_all2 (\<lambda>error m. code m = VALIDATION_ERROR
               \<and> text m = message error @ '' (at ''
                            @ join ''.'' (map path_elem_to_string (path error)) @ '')''
               \<and> (path error = [] \<longrightarrow> text m = message error @ '' (at )''))
             [\<lparr>message = ''Required'', path = [PKey ''name'']\<rparr>] ms)"
proof -
  let ?w = "new_ZodSchemaValidatedAction nameSchema idSchema (stubAction mockResponse)"
  have result:
    "execute ?w [] 0
     = (Inr \<lparr>success = False,
             messages = Some [\<lparr>code = VALIDATION_ERROR, text = ''Required (at name)''\<rparr>],
             data = None\<rparr>, 0)"
    by (simp add: example_defs execute_def)
  have rejected:
    "safeParse (ZodSchemaValidatedAction.payloadSchema ?w)
       (JObj (stripEmptyStrings [] (ZodSchemaValidatedAction.payloadSchema ?w)))
     = SafeParseError [\<lparr>message = ''Required'', path = [PKey ''name'']\<rparr>]"
    by (simp add: example_defs)
  from validation_message_text [OF result disjI1 [OF rejected]] result rejected
  show ?thesis
    by (simp add: new_ZodSchemaValidatedAction_def)
qed

text \<open>
  Against C4 as stated: a wrapped unit that returns a string as data gets the issue
  \<open>Expected object, received string\<close> with an empty path from the output schema, and the
  text of the returned message is not the bare issue message.
\<close>

theorem empty_path_text_counterexample:
  "safeParse idSchema (response_data stringDataResponse)
     = SafeParseError [\<lparr>message = ''Expected object, received string'', path = []\<rparr>]
   \<and> execute (new_ZodSchemaValidatedAction nameSchema idSchema (stubAction stringDataResponse))
        johnDoe 0
     = (Inr \<lparr>success = False,
             messages = Some [\<lparr>code = VALIDATION_ERROR,
                               text = ''Expected object, received string (at )''\<rparr>],
             data = None\<rparr>, 1)
   \<and> ''Expected object, received string (at )'' \<noteq> ''Expected object, received string''"
  by (simp add: example_defs execute_def)

text \<open>
  C3.  Every response record that the Action wrapper returns is of one of three kinds:
  the input stage failed, and the record is \<open>{success: false, messages}\<close> with the
  messages of the input issues, without data, and the wrapped unit was not invoked; or
  the output stage failed, and the record is \<open>{success: false, messages}\<close> with the
  messages of the output issues, without data; or both stages passed, and the record has
  the \<open>success\<close> and \<open>messages\<close> of the wrapped unit's response and the validated value
  as \<open>data\<close>.  So the messages of a failing stage come from that stage only, and
  \<open>success == true\<close> implies that \<open>data\<close> is the value validated by the output schema.
\<close>

theorem execute_result_cases:
  assumes "execute this payload s = (Inr r, s')"
  shows "((\<exists>errors.
             safeParse (ZodSchemaValidatedAction.payloadSchema this)
               (JObj (stripEmptyStrings payload (ZodSchemaValidatedAction.payloadSchema this)))
             = SafeParseError errors
             \<and> s' = s
             \<and> r = \<lparr>success = False, messages = Some (map errorToMessage errors), data = None\<rparr>)
          \<or> (\<exists>parsedPayload response.
                safeParse (ZodSchemaValidatedAction.payloadSchema this)
                  (JObj (stripEmptyStrings payload (ZodSchemaValidatedAction.payloadSchema this)))
                = SafeParseSuccess parsedPayload
                \<and> action this parsedPayload s = (Inr response, s')
                \<and> ((\<exists>errors.
                       safeParse (objectSchema this) (response_data response) = SafeParseError errors
                       \<and> r = \<lparr>success = False, messages = Some (map errorToMessage errors),
                              data = None\<rparr>)
                   \<or> (\<exists>validated.
                         safeParse (objectSchema this) (response_data response)
                         = SafeParseSuccess validated
                         \<and> r = \<lparr>success = success response, messages = messages response,
                                data = Some validated\<rparr>))))
         \<and> (success r \<longrightarrow>
               (\<exists>parsedPayload response validated.
                  safeParse (ZodSchemaValidatedAction.payloadSchema this)
                    (JObj (stripEmptyStrings payload (ZodSchemaValidatedAction.payloadSchema this)))
                  = SafeParseSuccess parsedPayload
                  \<and> action this parsedPayload s = (Inr response, s')
                  \<and> safeParse (objectSchema this) (response_data response)
                    = SafeParseSuccess validated
                  \<and> data r = Some validated))"
  using assms
  by (auto simp: execute_def split: SafeParseReturnType.splits sum.splits prod.splits)

theorem execute_result_cases_witness:
  "execute (new_ZodSchemaValidatedAction nameSchema idSchema (stubAction mockResponse)) johnDoe 0
     = (Inr mockResponse, 1)
   \<and> success mockResponse
   \<and> (\<exists>parsedPayload response validated.
         safeParse nameSchema (JObj (stripEmptyStrings johnDoe nameSchema))
         = SafeParseSuccess parsedPayload
         \<and> stubAction mockResponse parsedPayload 0 = (Inr response, 1)
         \<and> safeParse idSchema (response_data response) = SafeParseSuccess validated
         \<and> data mockResponse = Some validated)"
proof -
  let ?w = "new_ZodSchemaValidatedAction nameSchema idSchema (stubAction mockResponse)"
  have result: "execute ?w johnDoe 0 = (Inr mockResponse, 1)"
    by (simp add: example_defs execute_def)
  have ok: "success mockResponse"
    by (simp add: mockResponse_def)
  from execute_result_cases [OF result] ok
  have "\<exists>parsedPayload response validated.
          safeParse (ZodSchemaValidatedAction.payloadSchema ?w)
            (JObj (stripEmptyStrings johnDoe (ZodSchemaValidatedAction.payloadSchema ?w)))
          = SafeParseSuccess parsedPayload
          \<and> action ?w parsedPayload 0 = (Inr response, 1)
          \<and> safeParse (objectSchema ?w) (response_data response) = SafeParseSuccess validated
          \<and> data mockResponse = Some validated"
    by blast
  then have "\<exists>parsedPayload response validated.
          safeParse nameSchema (JObj (stripEmptyStrings johnDoe nameSchema))
          = SafeParseSuccess parsedPayload
          \<and> stubAction mockResponse parsedPayload 0 = (Inr response, 1)
          \<and> safeParse idSchema (response_data response) = SafeParseSuccess validated
          \<and> data mockResponse = Some validated"
    unfolding new_ZodSchemaValidatedAction_def by simp
  with result ok show ?thesis
    by blast
qed

text \<open>
  Against C3 as stated: a wrapped unit that answers \<open>success == false\<close> with its own
  message and with data that the output schema accepts gets its record back, so the
  returned record has \<open>success == false\<close> although its data is present and valid.
\<close>

theorem success_invariant_counterexample:
  "execute (new_ZodSchemaValidatedAction nameSchema idSchema (stubAction failedWithData))
     johnDoe 0
     = (Inr \<lparr>success = False, messages = Some [notFoundMessage],
             data = Some (JObj [(''id'', JNum 1)])\<rparr>, 1)
   \<and> safeParse idSchema (JObj [(''id'', JNum 1)]) = SafeParseSuccess (JObj [(''id'', JNum 1)])
   \<and> \<not> (success \<lparr>success = False, messages = Some [notFoundMessage],
                    data = Some (JObj [(''id'', JNum 1)])\<rparr>
          \<longleftrightarrow> data \<lparr>success = False, messages = Some [notFoundMessage],
                      data = Some (JObj [(''id'', JNum 1)])\<rparr>
               = Some (JObj [(''id'', JNum 1)]))"
  by (simp add: example_defs execute_def)

section \<open>The Service wrapper\<close>

text \<open>
  C6.  The Service wrapper validates the payload as it is: its result does not depend on
  which fields the schema declares optional or nullable.  When the input schema rejects
  the payload, the result is that failure result itself, the state of the wrapped service
  is the one before the call, and the result is the same whatever the service is.  When
  the input schema accepts the payload, the service is called with the schema's value,
  and the result is the result of validating the service's return value against the
  response schema, as it is.
\<close>

theorem service_execute_spec:
  "(safeParse (ZodSchemaValidatedService.payloadSchema this) payload = SafeParseError errors
      \<longrightarrow> service_execute this payload s = (Inr (SafeParseError errors), s)
          \<and> service_execute (this\<lparr>service := service'\<rparr>) payload s
            = (Inr (SafeParseError errors), s))
   \<and> (safeParse (ZodSchemaValidatedService.payloadSchema this) payload
        = SafeParseSuccess parsedPayload
      \<longrightarrow> service this parsedPayload s = (Inr response, s')
      \<longrightarrow> service_execute this payload s = (Inr (safeParse (responseSchema this) response), s'))
   \<and> service_execute
        (this\<lparr>ZodSchemaValidatedService.payloadSchema :=
                (ZodSchemaValidatedService.payloadSchema this)\<lparr>shape := sh\<rparr>\<rparr>) payload s
      = service_execute this payload s"
  by (simp add: service_execute_def split: SafeParseReturnType.splits sum.splits prod.splits)

theorem service_execute_spec_witness:
  "safeParse nameSchema (JObj [(''name'', JNum 123)])
     = SafeParseError [\<lparr>message = ''Expected string, received number'', path = [PKey ''name'']\<rparr>]
   \<and> service_execute
        (new_ZodSchemaValidatedService nameSchema idSchema (stubService (JObj [(''id'', JNum 1)])))
        (JObj [(''name'', JNum 123)]) 0
     = (Inr (SafeParseError
               [\<lparr>message = ''Expected string, received number'', path = [PKey ''name'']\<rparr>]), 0)
   \<and> safeParse nameSchema (JObj johnDoe) = SafeParseSuccess (JObj johnDoe)
   \<and> stubService (JObj [(''id'', JStr ''invalid'')]) (JObj johnDoe) 0
     = (Inr (JObj [(''id'', JStr ''invalid'')]), 1)
   \<and> service_execute
        (new_ZodSchemaValidatedService nameSchema idSchema
           (stubService (JObj [(''id'', JStr ''invalid'')])))
        (JObj johnDoe) 0
     = (Inr (SafeParseError
               [\<lparr>message = ''Expected number, received string'', path = [PKey ''id'']\<rparr>]), 1)"
proof -
  let ?v = "new_ZodSchemaValidatedService nameSchema idSchema (stubService (JObj [(''id'', JNum 1)]))"
  let ?w = "new_ZodSchemaValidatedService nameSchema idSchema
              (stubService (JObj [(''id'', JStr ''invalid'')]))"
  have rejected:
    "safeParse (ZodSchemaValidatedService.payloadSchema ?v) (JObj [(''name'', JNum 123)])
     = SafeParseError [\<lparr>message = ''Expected string, received number'', path = [PKey ''name'']\<rparr>]"
    by (simp add: example_defs)
  have accepted:
    "safeParse (ZodSchemaValidatedService.payloadSchema ?w) (JObj johnDoe)
     = SafeParseSuccess (JObj johnDoe)"
    by (simp add: example_defs)
  have called:
    "service ?w (JObj johnDoe) 0 = (Inr (JObj [(''id'', JStr ''invalid'')]), 1)"
    by (simp add: example_defs)
  have invalid:
    "safeParse (responseSchema ?w) (JObj [(''id'', JStr ''invalid'')])
     = SafeParseError [\<lparr>message = ''Expected number, received string'', path = [PKey ''id'']\<rparr>]"
    by (simp add: example_defs)
  from service_execute_spec [of ?v "JObj [(''name'', JNum 123)]" _ 0] rejected
  have first:
    "service_execute ?v (JObj [(''name'', JNum 123)]) 0
     = (Inr (SafeParseError
               [\<lparr>message = ''Expected string, received number'', path = [PKey ''name'']\<rparr>]), 0)"
    by blast
  from service_execute_spec [of ?w "JObj johnDoe" _ 0] accepted called
  have "service_execute ?w (JObj johnDoe) 0
        = (Inr (safeParse (responseSchema ?w) (JObj [(''id'', JStr ''invalid'')])), 1)"
    by blast
  with invalid have second:
    "service_execute ?w (JObj johnDoe) 0
     = (Inr (SafeParseError
               [\<lparr>message = ''Expected number, received string'', path = [PKey ''id'']\<rparr>]), 1)"
    by simp
  from rejected accepted called first second show ?thesis
    by (simp add: new_ZodSchemaValidatedService_def)
qed

section \<open>The field stripper on the store\<close>

lemma stripEntryH_eq:
  "c < length h \<Longrightarrow> stripEntryH c h entry = h[c := stripEntry (h ! c) entry]"
  by (cases entry) (simp add: stripEntryH_def stripEntry_def)

lemma foldl_stripEntryH:
  "c < length h \<Longrightarrow> foldl (stripEntryH c) h sh = h[c := foldl stripEntry (h ! c) sh]"
proof (induction sh arbitrary: h)
  case Nil
  then show ?case by simp
next
  case (Cons entry sh)
  have "foldl (stripEntryH c) h (entry # sh)
        = foldl (stripEntryH c) (h[c := stripEntry (h ! c) entry]) sh"
    using Cons.prems by (simp add: stripEntryH_eq)
  also have "\<dots> = (h[c := stripEntry (h ! c) entry])
                     [c := foldl stripEntry ((h[c := stripEntry (h ! c) entry]) ! c) sh]"
    using Cons.prems by (intro Cons.IH) simp
  also have "\<dots> = h[c := foldl stripEntry (h ! c) (entry # sh)]"
    using Cons.prems by simp
  finally show ?case .
qed

lemma stripEmptyStringsH_eq:
  "stripEmptyStringsH h d schema = (length h, h @ [stripEmptyStrings (h ! d) schema])"
  by (simp add: stripEmptyStringsH_def spreadCopy_def foldl_stripEntryH stripEmptyStrings_def)

text \<open>
  C8.  The field stripper does not mutate its input record: after the call, the record at
  the input's address, and every object that was in the store before the call, is what
  it was; the returned record is a new object, and it holds the stripped copy even when
  that differs from the input.
\<close>

theorem stripEmptyStringsH_keeps_input:
  assumes "data' < length h"
    and "stripEmptyStringsH h data' schema = (cleanedData, h')"
  shows "h' ! data' = h ! data'
         \<and> (\<forall>a < length h. h' ! a = h ! a)
         \<and> cleanedData \<noteq> data'
         \<and> h' ! cleanedData = stripEmptyStrings (h ! data') schema"
  using assms by (auto simp: stripEmptyStringsH_eq nth_append)

theorem stripEmptyStringsH_keeps_input_witness:
  "(0::nat) < length [[(''name'', JStr ''Ann''), (''email'', JStr [])]]
   \<and> stripEmptyStringsH [[(''name'', JStr ''Ann''), (''email'', JStr [])]] 0 optionalEmailSchema
     = (1, [[(''name'', JStr ''Ann''), (''email'', JStr [])],
            [(''name'', JStr ''Ann''), (''email'', Undefined)]])
   \<and> [[(''name'', JStr ''Ann''), (''email'', JStr [])],
       [(''name'', JStr ''Ann''), (''email'', Undefined)]] ! 0
     = [[(''name'', JStr ''Ann''), (''email'', JStr [])]] ! 0
   \<and> (1::nat) \<noteq> 0"
proof -
  have valid: "(0::nat) < length [[(''name'', JStr ''Ann''), (''email'', JStr [])]]"
    by simp
  have run:
    "stripEmptyStringsH [[(''name'', JStr ''Ann''), (''email'', JStr [])]] 0 optionalEmailSchema
     = (1, [[(''name'', JStr ''Ann''), (''email'', JStr [])],
            [(''name'', JStr ''Ann''), (''email'', Undefined)]])"
    by (simp add: stripEmptyStringsH_def spreadCopy_def stripEntryH_def example_defs)
  from stripEmptyStringsH_keeps_input [OF valid run] valid run show ?thesis
    by simp
qed

section \<open>The tool adapters\<close>

text \<open>
  The two \<open>execute\<close> methods read nothing of their object but the three fields of the
  base class.
\<close>

lemma execute_inherited:
  assumes "ZodSchemaValidatedAction.payloadSchema a = ZodSchemaValidatedAction.payloadSchema b"
    and "objectSchema a = objectSchema b"
    and "action a = action b"
  shows "execute a payload s = execute b payload s"
  unfolding execute_def assms by (rule refl)

lemma service_execute_inherited:
  assumes "ZodSchemaValidatedService.payloadSchema a = ZodSchemaValidatedService.payloadSchema b"
    and "responseSchema a = responseSchema b"
    and "service a = service b"
  shows "service_execute a payload s = service_execute b payload s"
  unfolding service_execute_def assms by (rule refl)

text \<open>
  C9.  An \<open>ActionTool\<close> and a \<open>ServiceTool\<close> return, for every payload and every state of
  the wrapped unit, what the validated wrapper built from the same input schema, output
  schema and wrapped unit returns, and their \<open>parameters\<close> field is the input schema they
  were built with.
\<close>

theorem tool_adapters_delegate:
  "execute (new_ActionTool name' description' payloadSchema' responseSchema' action') payload s
     = execute (new_ZodSchemaValidatedAction payloadSchema' responseSchema' action') payload s
   \<and> ActionTool.parameters
        (new_ActionTool name' description' payloadSchema' responseSchema' action')
     = payloadSchema'
   \<and> service_execute
        (new_ServiceTool name' description' payloadSchema' responseSchema' service') payload2 s2
     = service_execute
         (new_ZodSchemaValidatedService payloadSchema' responseSchema' service') payload2 s2
   \<and> ServiceTool.parameters
        (new_ServiceTool name' description' payloadSchema' responseSchema' service')
     = payloadSchema'"
proof (intro conjI)
  show "execute (new_ActionTool name' description' payloadSchema' responseSchema' action') payload s
        = execute (new_ZodSchemaValidatedAction payloadSchema' responseSchema' action') payload s"
    by (rule execute_inherited)
      (simp_all add: new_ActionTool_def new_ZodSchemaValidatedAction_def)
  show "service_execute
          (new_ServiceTool name' description' payloadSchema' responseSchema' service') payload2 s2
        = service_execute
            (new_ZodSchemaValidatedService payloadSchema' responseSchema' service') payload2 s2"
    by (rule service_execute_inherited)
      (simp_all add: new_ServiceTool_def new_ZodSchemaValidatedService_def)
qed (simp_all add: new_ActionTool_def new_ServiceTool_def)

end
